theory Spec2Isabelle
  imports Main "HOL-Library.Word" "HOL-Library.AList"
begin

unbundle bit_operations_syntax

section \<open>The lights module of the TI OMAP3 hardware layer (liblights/lights.c)\<close>

text \<open>
  The module turns a light state into writes of decimal integers to fixed control files.
  The embedding is sequential: one caller, one call at a time. C's \<open>int\<close> and
  \<open>unsigned int\<close> are 32-bit words (\<open>+\<close>, \<open>*\<close> and unary minus wrap); a signed
  reading is \<open>sint\<close>, a signed comparison \<open>word_sless\<close>, and \<open>>>\<close> on an \<open>int\<close> is
  the arithmetic shift \<open>signed_drop_bit\<close>. What the operating system answers to an
  \<open>open\<close> and a \<open>write\<close> is not decided by the program: it is read from an oracle
  that sees everything done so far.
\<close>

subsection \<open>Data\<close>

type_synonym cint = "32 word"
type_synonym cuint = "32 word"

text \<open>An address; \<open>NULL\<close> is 0.\<close>

type_synonym ptr = nat

definition NULL :: ptr where
  "NULL = 0"

text \<open>\<open>struct light_state_t\<close> of hardware/lights.h.\<close>

record light_state_t =
  color :: cuint
  flashMode :: cint
  flashOnMS :: cint
  flashOffMS :: cint
  brightnessMode :: cint

text \<open>
  Modelled from the spec: hardware/lights.h is not among the sources. The spec names three
  flash modes, NONE, TIMED and HARDWARE; they carry the numbers of the Android header.
\<close>

definition LIGHT_FLASH_NONE :: cint where
  "LIGHT_FLASH_NONE = 0"

definition LIGHT_FLASH_TIMED :: cint where
  "LIGHT_FLASH_TIMED = 1"

definition LIGHT_FLASH_HARDWARE :: cint where
  "LIGHT_FLASH_HARDWARE = 2"

text \<open>
  Modelled from the spec: the six identifier strings of hardware/lights.h, as the spec
  lists them (backlight, keyboard, buttons, battery, notifications, attention).
\<close>

definition LIGHT_ID_BACKLIGHT :: string where
  "LIGHT_ID_BACKLIGHT = ''backlight''"

definition LIGHT_ID_KEYBOARD :: string where
  "LIGHT_ID_KEYBOARD = ''keyboard''"

definition LIGHT_ID_BUTTONS :: string where
  "LIGHT_ID_BUTTONS = ''buttons''"

definition LIGHT_ID_BATTERY :: string where
  "LIGHT_ID_BATTERY = ''battery''"

definition LIGHT_ID_NOTIFICATIONS :: string where
  "LIGHT_ID_NOTIFICATIONS = ''notifications''"

definition LIGHT_ID_ATTENTION :: string where
  "LIGHT_ID_ATTENTION = ''attention''"

text \<open>
  \<open>EINVAL\<close> is the "invalid argument" error number of errno.h (22 on Linux).
  \<open>HARDWARE_DEVICE_TAG\<close> is the tag of hardware/hardware.h, the four characters
  H, W, D, T packed into a word; nothing proved below depends on its value.
\<close>

definition EINVAL :: cint where
  "EINVAL = 22"

definition HARDWARE_DEVICE_TAG :: cuint where
  "HARDWARE_DEVICE_TAG = 0x48574454"

text \<open>
  A function pointer is the name of the function it points to. A device stores two:
  \<open>common.close\<close> and \<open>set_light\<close>; \<open>None\<close> is the null function pointer that
  \<open>memset\<close> leaves.
\<close>

datatype set_light_fn =
    Fn_set_light_backlight
  | Fn_set_light_keyboard
  | Fn_set_light_buttons
  | Fn_set_light_battery
  | Fn_set_light_notification
  | Fn_set_light_attention

datatype close_fn = Fn_close_lights

record hw_device_t =
  tag :: cuint
  version :: cuint
  module :: ptr
  close :: "close_fn option"

record light_device_t =
  common :: hw_device_t
  set_light :: "set_light_fn option"

subsection \<open>The world outside the program\<close>

text \<open>
  What one call of \<open>write_int\<close> meets: \<open>open\<close> fails and leaves an error number, or
  \<open>open\<close> succeeds and \<open>write\<close> returns \<open>amt\<close>, with the error number that \<open>errno\<close>
  holds when the function reads it.
\<close>

datatype io_outcome =
    Open_fails cint
  | Write_returns cint cint

datatype event =
    Mutex_init
  | Mutex_lock
  | Mutex_unlock
  | Write_int string cint io_outcome

text \<open>
  The world: the file-system oracle, the trace of what was done, the static flag of
  \<open>write_int\<close>, the once-control \<open>g_init\<close> and the heap. A heap cell is allocated and
  not yet written (\<open>None\<close>) or holds a device. The one fault of the model is a
  \<open>free\<close> of an address that is neither \<open>NULL\<close> nor live.
\<close>

datatype fault = Invalid_free

record world =
  sysfs :: "event list \<Rightarrow> string \<Rightarrow> cint \<Rightarrow> io_outcome"
  trace :: "event list"
  already_warned :: cint
  g_init :: bool
  heap :: "(ptr \<times> light_device_t option) list"

subsection \<open>Control files\<close>

definition LCD_FILE :: string where
  "LCD_FILE = ''/sys/class/leds/lcd-backlight/brightness''"

definition KEYBOARD_FILE :: string where
  "KEYBOARD_FILE = ''/sys/class/leds/keyboard-backlight/brightness''"

definition CHARGING_LED_FILE :: string where
  "CHARGING_LED_FILE = ''/sys/class/leds/battery-led/brightness''"

definition RED_LED_FILE :: string where
  "RED_LED_FILE = ''/sys/class/leds/red/brightness''"

definition RED_DELAY_ON_FILE :: string where
  "RED_DELAY_ON_FILE = ''/sys/class/leds/red/delay_on''"

definition RED_DELAY_OFF_FILE :: string where
  "RED_DELAY_OFF_FILE = ''/sys/class/leds/red/delay_off''"

definition GREEN_LED_FILE :: string where
  "GREEN_LED_FILE = ''/sys/class/leds/green/brightness''"

definition GREEN_DELAY_ON_FILE :: string where
  "GREEN_DELAY_ON_FILE = ''/sys/class/leds/green/delay_on''"

definition GREEN_DELAY_OFF_FILE :: string where
  "GREEN_DELAY_OFF_FILE = ''/sys/class/leds/green/delay_off''"

definition BLUE_LED_FILE :: string where
  "BLUE_LED_FILE = ''/sys/class/leds/blue/brightness''"

definition BLUE_DELAY_ON_FILE :: string where
  "BLUE_DELAY_ON_FILE = ''/sys/class/leds/blue/delay_on''"

definition BLUE_DELAY_OFF_FILE :: string where
  "BLUE_DELAY_OFF_FILE = ''/sys/class/leds/blue/delay_off''"

subsection \<open>The mutex\<close>

text \<open>
  With one caller the mutex never blocks; taking and releasing it are recorded in the
  trace, so that the trace shows which operations write inside the critical section.
\<close>

definition init_globals :: "world \<Rightarrow> world" where
  "init_globals w = w\<lparr>trace := trace w @ [Mutex_init]\<rparr>"

definition pthread_once_init_globals :: "world \<Rightarrow> world" where
  "pthread_once_init_globals w =
     (if g_init w then w else init_globals (w\<lparr>g_init := True\<rparr>))"

definition pthread_mutex_lock :: "world \<Rightarrow> world" where
  "pthread_mutex_lock w = w\<lparr>trace := trace w @ [Mutex_lock]\<rparr>"

definition pthread_mutex_unlock :: "world \<Rightarrow> world" where
  "pthread_mutex_unlock w = w\<lparr>trace := trace w @ [Mutex_unlock]\<rparr>"

subsection \<open>\<open>write_int\<close>\<close>

text \<open>
  The text handed to \<open>write\<close> is the decimal form of the value and a newline; the trace
  keeps the value. A short write (\<open>amt\<close> other than -1) counts as success, as in the
  source.
\<close>

definition write_int :: "string \<Rightarrow> cint \<Rightarrow> world \<Rightarrow> cint \<times> world" where
  "write_int path val w =
     (case sysfs w (trace w) path val of
        Write_returns amt errno \<Rightarrow>
          (if amt = - 1 then - errno else 0,
           w\<lparr>trace := trace w @ [Write_int path val (Write_returns amt errno)]\<rparr>)
      | Open_fails errno \<Rightarrow>
          (- errno,
           (if already_warned w = 0 then w\<lparr>already_warned := 1\<rparr> else w)
             \<lparr>trace := trace w @ [Write_int path val (Open_fails errno)]\<rparr>))"

subsection \<open>Lit test and brightness\<close>

definition is_lit :: "light_state_t \<Rightarrow> cint" where
  "is_lit state = color state AND 0x00ffffff"

definition rgb_to_brightness :: "light_state_t \<Rightarrow> cint" where
  "rgb_to_brightness state =
     (let color_v = color state AND 0x00ffffff
      in signed_drop_bit 8
           (77 * (signed_drop_bit 16 color_v AND 0x00ff)
            + 150 * (signed_drop_bit 8 color_v AND 0x00ff)
            + 29 * (color_v AND 0x00ff)))"

subsection \<open>The six operations\<close>

definition set_light_backlight :: "ptr \<Rightarrow> light_state_t \<Rightarrow> world \<Rightarrow> cint \<times> world" where
  "set_light_backlight dev state w =
     (let brightness = rgb_to_brightness state;
          w1 = pthread_mutex_lock w;
          (err, w2) = write_int LCD_FILE brightness w1;
          w3 = pthread_mutex_unlock w2
      in (err, w3))"

definition set_light_keyboard :: "ptr \<Rightarrow> light_state_t \<Rightarrow> world \<Rightarrow> cint \<times> world" where
  "set_light_keyboard dev state w = (0, w)"

definition set_light_buttons :: "ptr \<Rightarrow> light_state_t \<Rightarrow> world \<Rightarrow> cint \<times> world" where
  "set_light_buttons dev state w =
     (let on = is_lit state;
          w1 = pthread_mutex_lock w;
          (err, w2) = write_int KEYBOARD_FILE (if on \<noteq> 0 then 255 else 0) w1;
          w3 = pthread_mutex_unlock w2
      in (err, w3))"

definition set_light_battery :: "ptr \<Rightarrow> light_state_t \<Rightarrow> world \<Rightarrow> cint \<times> world" where
  "set_light_battery dev state w =
     (let (onMS, offMS) =
            (if flashMode state = LIGHT_FLASH_HARDWARE \<or> flashMode state = LIGHT_FLASH_TIMED
             then (flashOnMS state, flashOffMS state)
             else (0, 0));
          colorRGB = color state;
          (err, w1) = write_int CHARGING_LED_FILE (if colorRGB \<noteq> 0 then 255 else 0) w
      in (err, w1))"

definition set_light_notification :: "ptr \<Rightarrow> light_state_t \<Rightarrow> world \<Rightarrow> cint \<times> world" where
  "set_light_notification dev state w =
     (let (onMS, offMS) =
            (if flashMode state = LIGHT_FLASH_HARDWARE \<or> flashMode state = LIGHT_FLASH_TIMED
             then (flashOnMS state, flashOffMS state)
             else (0, 0));
          colorRGB = color state;
          red = drop_bit 16 colorRGB AND 0xFF;
          green = drop_bit 8 colorRGB AND 0xFF;
          blue = colorRGB AND 0xFF;
          (err, w1) = write_int RED_LED_FILE red w;
          (err, w2) = write_int GREEN_LED_FILE green w1;
          (err, w3) = write_int BLUE_LED_FILE blue w2
      in if word_sless 0 onMS \<and> word_sless 0 offMS then
           (let (r4, w4) = write_int RED_DELAY_ON_FILE onMS w3;
                (r5, w5) = write_int RED_DELAY_OFF_FILE offMS w4;
                (r6, w6) = write_int GREEN_DELAY_ON_FILE onMS w5;
                (r7, w7) = write_int GREEN_DELAY_OFF_FILE offMS w6;
                (r8, w8) = write_int BLUE_DELAY_ON_FILE onMS w7;
                (r9, w9) = write_int BLUE_DELAY_OFF_FILE offMS w8
            in (err, w9))
         else
           (let (r4, w4) = write_int RED_DELAY_ON_FILE 0 w3;
                (r5, w5) = write_int RED_DELAY_OFF_FILE 0 w4;
                (r6, w6) = write_int GREEN_DELAY_ON_FILE 0 w5;
                (r7, w7) = write_int GREEN_DELAY_OFF_FILE 0 w6;
                (r8, w8) = write_int BLUE_DELAY_ON_FILE 0 w7;
                (r9, w9) = write_int BLUE_DELAY_OFF_FILE 0 w8
            in (err, w9)))"

definition set_light_attention :: "ptr \<Rightarrow> light_state_t \<Rightarrow> world \<Rightarrow> cint \<times> world" where
  "set_light_attention dev state w =
     (let (onMS, offMS) =
            (if flashMode state = LIGHT_FLASH_HARDWARE \<or> flashMode state = LIGHT_FLASH_TIMED
             then (flashOnMS state, flashOffMS state)
             else (0, 0));
          colorRGB = color state;
          red = drop_bit 16 colorRGB AND 0xFF;
          green = drop_bit 8 colorRGB AND 0xFF;
          blue = colorRGB AND 0xFF;
          (err, w1) = write_int RED_LED_FILE red w;
          (err, w2) = write_int GREEN_LED_FILE green w1;
          (err, w3) = write_int BLUE_LED_FILE blue w2
      in if word_sless 0 onMS \<and> word_sless 0 offMS then
           (let (r4, w4) = write_int RED_DELAY_ON_FILE onMS w3;
                (r5, w5) = write_int RED_DELAY_OFF_FILE offMS w4;
                (r6, w6) = write_int GREEN_DELAY_ON_FILE onMS w5;
                (r7, w7) = write_int GREEN_DELAY_OFF_FILE offMS w6;
                (r8, w8) = write_int BLUE_DELAY_ON_FILE onMS w7;
                (r9, w9) = write_int BLUE_DELAY_OFF_FILE offMS w8
            in (err, w9))
         else
           (let (r4, w4) = write_int RED_DELAY_ON_FILE 0 w3;
                (r5, w5) = write_int RED_DELAY_OFF_FILE 0 w4;
                (r6, w6) = write_int GREEN_DELAY_ON_FILE 0 w5;
                (r7, w7) = write_int GREEN_DELAY_OFF_FILE 0 w6;
                (r8, w8) = write_int BLUE_DELAY_ON_FILE 0 w7;
                (r9, w9) = write_int BLUE_DELAY_OFF_FILE 0 w8
            in (err, w9)))"

text \<open>Calling through a \<open>set_light\<close> function pointer.\<close>

fun call_set_light :: "set_light_fn \<Rightarrow> ptr \<Rightarrow> light_state_t \<Rightarrow> world \<Rightarrow> cint \<times> world" where
  "call_set_light Fn_set_light_backlight dev state w = set_light_backlight dev state w"
| "call_set_light Fn_set_light_keyboard dev state w = set_light_keyboard dev state w"
| "call_set_light Fn_set_light_buttons dev state w = set_light_buttons dev state w"
| "call_set_light Fn_set_light_battery dev state w = set_light_battery dev state w"
| "call_set_light Fn_set_light_notification dev state w = set_light_notification dev state w"
| "call_set_light Fn_set_light_attention dev state w = set_light_attention dev state w"

subsection \<open>Allocation, \<open>open_lights\<close> and \<open>close_lights\<close>\<close>

text \<open>
  The heap lists the live cells. \<open>malloc\<close> hands out an address that is not \<open>NULL\<close>
  and not live; memory does not run out (the source does not test the result of
  \<open>malloc\<close> either). \<open>free\<close> of \<open>NULL\<close> does nothing, \<open>free\<close> of a live address
  releases it, and \<open>free\<close> of anything else is the fault \<open>Invalid_free\<close>.
\<close>

definition live :: "world \<Rightarrow> ptr \<Rightarrow> bool" where
  "live w p = (p \<in> fst ` set (heap w))"

definition malloc :: "world \<Rightarrow> ptr \<times> world" where
  "malloc w =
     (let p = Suc (fold max (map fst (heap w)) 0)
      in (p, w\<lparr>heap := (p, None) # heap w\<rparr>))"

definition free :: "ptr \<Rightarrow> world \<Rightarrow> fault + world" where
  "free p w =
     (if p = NULL then Inr w
      else if live w p then Inr (w\<lparr>heap := AList.delete p (heap w)\<rparr>)
      else Inl Invalid_free)"

definition zero_device :: light_device_t where
  "zero_device =
     \<lparr>common = \<lparr>tag = 0, version = 0, module = NULL, close = None\<rparr>, set_light = None\<rparr>"

definition memset_zero :: "ptr \<Rightarrow> world \<Rightarrow> world" where
  "memset_zero p w = w\<lparr>heap := AList.update p (Some zero_device) (heap w)\<rparr>"

text \<open>An assignment to a field of \<open>*p\<close>.\<close>

definition assign :: "ptr \<Rightarrow> (light_device_t \<Rightarrow> light_device_t) \<Rightarrow> world \<Rightarrow> world" where
  "assign p f w =
     (case map_of (heap w) p of
        Some (Some d) \<Rightarrow> w\<lparr>heap := AList.update p (Some (f d)) (heap w)\<rparr>
      | _ \<Rightarrow> w)"

definition deref :: "world \<Rightarrow> ptr \<Rightarrow> light_device_t option" where
  "deref w p = (case map_of (heap w) p of Some (Some d) \<Rightarrow> Some d | _ \<Rightarrow> None)"

definition close_lights :: "ptr \<Rightarrow> world \<Rightarrow> fault + cint \<times> world" where
  "close_lights dev w =
     (if dev \<noteq> NULL
      then (case free dev w of Inl f \<Rightarrow> Inl f | Inr w1 \<Rightarrow> Inr (0, w1))
      else Inr (0, w))"

text \<open>
  \<open>open_lights\<close> returns its status, what it stored in \<open>*device\<close> (\<open>None\<close>: nothing
  was stored) and the world.
\<close>

definition open_lights :: "ptr \<Rightarrow> string \<Rightarrow> world \<Rightarrow> cint \<times> ptr option \<times> world" where
  "open_lights module_v name w =
     (case (if LIGHT_ID_BACKLIGHT = name then Some Fn_set_light_backlight
            else if LIGHT_ID_KEYBOARD = name then Some Fn_set_light_keyboard
            else if LIGHT_ID_BUTTONS = name then Some Fn_set_light_buttons
            else if LIGHT_ID_BATTERY = name then Some Fn_set_light_battery
            else if LIGHT_ID_NOTIFICATIONS = name then Some Fn_set_light_notification
            else if LIGHT_ID_ATTENTION = name then Some Fn_set_light_attention
            else None) of
        None \<Rightarrow> (- EINVAL, None, w)
      | Some set_light_v \<Rightarrow>
          (let w1 = pthread_once_init_globals w;
               (dev, w2) = malloc w1;
               w3 = memset_zero dev w2;
               w4 = assign dev (\<lambda>d. d\<lparr>common := (common d)\<lparr>tag := HARDWARE_DEVICE_TAG\<rparr>\<rparr>) w3;
               w5 = assign dev (\<lambda>d. d\<lparr>common := (common d)\<lparr>version := 0\<rparr>\<rparr>) w4;
               w6 = assign dev (\<lambda>d. d\<lparr>common := (common d)\<lparr>module := module_v\<rparr>\<rparr>) w5;
               w7 = assign dev (\<lambda>d. d\<lparr>common := (common d)\<lparr>close := Some Fn_close_lights\<rparr>\<rparr>) w6;
               w8 = assign dev (\<lambda>d. d\<lparr>set_light := Some set_light_v\<rparr>) w7
           in (0, Some dev, w8)))"

section \<open>Reading the specification against the code\<close>

subsection \<open>What a trace shows\<close>

text \<open>The status \<open>write_int\<close> returns for an outcome: its error code, 0 for success.\<close>

definition status_of :: "io_outcome \<Rightarrow> cint" where
  "status_of out =
     (case out of
        Write_returns amt errno \<Rightarrow> if amt = - 1 then - errno else 0
      | Open_fails errno \<Rightarrow> - errno)"

text \<open>The file writes of a trace in order: each with its value, or with its status.\<close>

fun writes :: "event list \<Rightarrow> (string \<times> cint) list" where
  "writes [] = []"
| "writes (Write_int path val out # evs) = (path, val) # writes evs"
| "writes (ev # evs) = writes evs"

fun statuses :: "event list \<Rightarrow> (string \<times> cint) list" where
  "statuses [] = []"
| "statuses (Write_int path val out # evs) = (path, status_of out) # statuses evs"
| "statuses (ev # evs) = statuses evs"

text \<open>What a call added to the trace, and the status of the last write of a list.\<close>

definition since :: "world \<Rightarrow> world \<Rightarrow> event list" where
  "since w w' = drop (length (trace w)) (trace w')"

definition last_status :: "(string \<times> cint) list \<Rightarrow> cint option" where
  "last_status rs = (case rev rs of [] \<Rightarrow> None | (path, r) # _ \<Rightarrow> Some r)"

definition brightness_files :: "string list" where
  "brightness_files =
     [LCD_FILE, KEYBOARD_FILE, CHARGING_LED_FILE, RED_LED_FILE, GREEN_LED_FILE, BLUE_LED_FILE]"

subsection \<open>The specification's own words\<close>

text \<open>
  The luminance formula as the specification states it, over the integers: R, G and B are
  bits 16-23, 8-15 and 0-7 of the colour.
\<close>

definition luma :: "cuint \<Rightarrow> int" where
  "luma C =
     (let R = take_bit 8 (drop_bit 16 (uint C));
          G = take_bit 8 (drop_bit 8 (uint C));
          B = take_bit 8 (uint C)
      in drop_bit 8 (77 * R + 150 * G + 29 * B))"

text \<open>The table of section 4.3 of the specification: the operation of each identifier.\<close>

definition table_4_3 :: "string \<Rightarrow> set_light_fn option" where
  "table_4_3 name =
     map_of
       [(''backlight'', Fn_set_light_backlight),
        (''keyboard'', Fn_set_light_keyboard),
        (''buttons'', Fn_set_light_buttons),
        (''battery'', Fn_set_light_battery),
        (''notifications'', Fn_set_light_notification),
        (''attention'', Fn_set_light_attention)] name"

subsection \<open>Concrete worlds and states\<close>

text \<open>
  The world when the module is loaded: the static initialisers of the source, an empty
  trace and an empty heap. Two oracles: every write succeeds; or \<open>open\<close> fails on one
  file with a given error number and every other write succeeds.
\<close>

definition initial_world :: "(event list \<Rightarrow> string \<Rightarrow> cint \<Rightarrow> io_outcome) \<Rightarrow> world" where
  "initial_world sys = \<lparr>sysfs = sys, trace = [], already_warned = 0, g_init = False, heap = []\<rparr>"

definition all_ok :: "event list \<Rightarrow> string \<Rightarrow> cint \<Rightarrow> io_outcome" where
  "all_ok evs path val = Write_returns 2 0"

definition open_fails_on :: "string \<Rightarrow> cint \<Rightarrow> event list \<Rightarrow> string \<Rightarrow> cint \<Rightarrow> io_outcome" where
  "open_fails_on file errno evs path val =
     (if path = file then Open_fails errno else Write_returns 2 0)"

text \<open>The light state of the specification's example, and two states for the battery.\<close>

definition example_state :: light_state_t where
  "example_state =
     \<lparr>color = 0x00112233, flashMode = LIGHT_FLASH_TIMED, flashOnMS = 100, flashOffMS = 200,
      brightnessMode = 0\<rparr>"

definition steady :: "cuint \<Rightarrow> light_state_t" where
  "steady c =
     \<lparr>color = c, flashMode = LIGHT_FLASH_NONE, flashOnMS = 0, flashOffMS = 0,
      brightnessMode = 0\<rparr>"

section \<open>Lemmas\<close>

lemma ff_mask: "(0xff::32 word) = mask 8"
  by (simp add: mask_eq_exp_minus_1)

lemma ffffff_mask: "(0x00ffffff::32 word) = mask 24"
  by (simp add: mask_eq_exp_minus_1)

lemma sdrop_low24: "signed_drop_bit n ((x::32 word) AND 0x00ffffff) = drop_bit n (x AND 0x00ffffff)"
  unfolding ffffff_mask by (rule bit_word_eqI) (auto simp: bit_simps)

lemma byte_uint:
  "n \<le> 16 \<Longrightarrow> uint (drop_bit n ((x::32 word) AND 0x00ffffff) AND 0xff) = take_bit 8 (drop_bit n (uint x))"
  unfolding ffffff_mask ff_mask
  by (rule bit_eqI) (auto simp: bit_simps)

lemma byte0_uint:
  "uint (((x::32 word) AND 0x00ffffff) AND 0xff) = take_bit 8 (uint x)"
  using byte_uint [of 0 x] by simp

lemma sint_small:
  fixes k :: int
  assumes "0 \<le> k" "k < 65536"
  shows "sint (word_of_int k :: 32 word) = k"
proof -
  have "signed_take_bit 31 k = k"
    using assms by (intro signed_take_bit_int_eq_self) simp_all
  then show ?thesis by (simp only: sint_sbintrunc') simp
qed

lemma div256_range:
  fixes k :: int
  assumes "0 \<le> k" "k < 65536"
  shows "0 \<le> k div 256 \<and> k div 256 \<le> 255"
  using assms by presburger

lemma weighted_sum_sint:
  fixes r g b :: "32 word"
  assumes "uint r < 256" "uint g < 256" "uint b < 256"
  shows "sint (77 * r + 150 * g + 29 * b) = 77 * uint r + 150 * uint g + 29 * uint b"
proof -
  let ?s = "77 * uint r + 150 * uint g + 29 * uint b"
  have nonneg: "0 \<le> uint r" "0 \<le> uint g" "0 \<le> uint b" by simp_all
  have bound: "0 \<le> ?s" "?s < 65536" using assms nonneg by linarith+
  have "77 * r + 150 * g + 29 * b = word_of_int ?s"
    by simp
  then show ?thesis
    using sint_small [OF bound] by simp
qed

lemma take_bit8_less: "take_bit 8 (k::int) < 256"
  using take_bit_int_less_exp [of 8 k] by simp

lemma rgb_to_brightness_luma: "sint (rgb_to_brightness state) = luma (color state)"
proof -
  let ?c = "color state AND 0x00ffffff"
  let ?r = "drop_bit 16 ?c AND 0xff" and ?g = "drop_bit 8 ?c AND 0xff" and ?b = "?c AND 0xff"
  have r: "uint ?r = take_bit 8 (drop_bit 16 (uint (color state)))" by (rule byte_uint) simp
  have g: "uint ?g = take_bit 8 (drop_bit 8 (uint (color state)))" by (rule byte_uint) simp
  have b: "uint ?b = take_bit 8 (uint (color state))" by (rule byte0_uint)
  have "sint (77 * ?r + 150 * ?g + 29 * ?b) = 77 * uint ?r + 150 * uint ?g + 29 * uint ?b"
    by (rule weighted_sum_sint) (simp_all only: r g b take_bit8_less)
  then show ?thesis
    by (simp only: rgb_to_brightness_def Let_def sdrop_low24 sint_signed_drop_bit_eq luma_def r g b)
qed

lemma luma_range: "0 \<le> luma C \<and> luma C \<le> 255"
proof -
  let ?R = "take_bit 8 (drop_bit 16 (uint C))" and ?G = "take_bit 8 (drop_bit 8 (uint C))"
    and ?B = "take_bit 8 (uint C)"
  have lo: "0 \<le> ?R" "0 \<le> ?G" "0 \<le> ?B" by simp_all
  have hi: "?R < 256" "?G < 256" "?B < 256" by (rule take_bit8_less)+
  have "0 \<le> 77 * ?R + 150 * ?G + 29 * ?B" "77 * ?R + 150 * ?G + 29 * ?B < 65536"
    using lo hi by linarith+
  then have "0 \<le> (77 * ?R + 150 * ?G + 29 * ?B) div 256 \<and> (77 * ?R + 150 * ?G + 29 * ?B) div 256 \<le> 255"
    by (rule div256_range)
  then show ?thesis
    by (simp only: luma_def Let_def drop_bit_eq_div) simp
qed

lemma luma_divmod:
  "luma C =
     (77 * (uint C div 65536 mod 256) + 150 * (uint C div 256 mod 256) + 29 * (uint C mod 256))
     div 256"
  by (simp add: luma_def Let_def drop_bit_eq_div take_bit_eq_mod)

lemma writes_append: "writes (xs @ ys) = writes xs @ writes ys"
  by (induction xs rule: writes.induct) simp_all

lemma statuses_append: "statuses (xs @ ys) = statuses xs @ statuses ys"
  by (induction xs rule: statuses.induct) simp_all

lemma fst_write_int: "fst (write_int path val w) = status_of (sysfs w (trace w) path val)"
  by (simp add: write_int_def status_of_def split: io_outcome.split)

lemma trace_write_int:
  "trace (snd (write_int path val w)) = trace w @ [Write_int path val (sysfs w (trace w) path val)]"
  by (simp add: write_int_def split: io_outcome.split)

lemma sysfs_write_int: "sysfs (snd (write_int path val w)) = sysfs w"
  by (simp add: write_int_def split: io_outcome.split)

lemma heap_write_int: "heap (snd (write_int path val w)) = heap w"
  by (simp add: write_int_def split: io_outcome.split)

lemma g_init_write_int: "g_init (snd (write_int path val w)) = g_init w"
  by (simp add: write_int_def split: io_outcome.split)

lemmas write_int_simps =
  fst_write_int trace_write_int sysfs_write_int heap_write_int g_init_write_int

lemma since_append: "trace w' = trace w @ evs \<Longrightarrow> since w w' = evs"
  by (simp add: since_def)

lemma trace_notification:
  "\<exists>o1 o2 o3 o4 o5 o6 o7 o8 o9.
     trace (snd (set_light_notification dev state w)) =
       trace w @
         [Write_int RED_LED_FILE (drop_bit 16 (color state) AND 0xFF) o1,
          Write_int GREEN_LED_FILE (drop_bit 8 (color state) AND 0xFF) o2,
          Write_int BLUE_LED_FILE (color state AND 0xFF) o3,
          Write_int RED_DELAY_ON_FILE 
            (if (flashMode state = LIGHT_FLASH_HARDWARE \<or> flashMode state = LIGHT_FLASH_TIMED)
                \<and> word_sless 0 (flashOnMS state) \<and> word_sless 0 (flashOffMS state)
             then flashOnMS state else 0) o4,
          Write_int RED_DELAY_OFF_FILE
            (if (flashMode state = LIGHT_FLASH_HARDWARE \<or> flashMode state = LIGHT_FLASH_TIMED)
                \<and> word_sless 0 (flashOnMS state) \<and> word_sless 0 (flashOffMS state)
             then flashOffMS state else 0) o5,
          Write_int GREEN_DELAY_ON_FILE 
            (if (flashMode state = LIGHT_FLASH_HARDWARE \<or> flashMode state = LIGHT_FLASH_TIMED)
                \<and> word_sless 0 (flashOnMS state) \<and> word_sless 0 (flashOffMS state)
             then flashOnMS state else 0) o6,
          Write_int GREEN_DELAY_OFF_FILE
            (if (flashMode state = LIGHT_FLASH_HARDWARE \<or> flashMode state = LIGHT_FLASH_TIMED)
                \<and> word_sless 0 (flashOnMS state) \<and> word_sless 0 (flashOffMS state)
             then flashOffMS state else 0) o7,
          Write_int BLUE_DELAY_ON_FILE 
            (if (flashMode state = LIGHT_FLASH_HARDWARE \<or> flashMode state = LIGHT_FLASH_TIMED)
                \<and> word_sless 0 (flashOnMS state) \<and> word_sless 0 (flashOffMS state)
             then flashOnMS state else 0) o8,
          Write_int BLUE_DELAY_OFF_FILE
            (if (flashMode state = LIGHT_FLASH_HARDWARE \<or> flashMode state = LIGHT_FLASH_TIMED)
                \<and> word_sless 0 (flashOnMS state) \<and> word_sless 0 (flashOffMS state)
             then flashOffMS state else 0) o9]
     \<and> fst (set_light_notification dev state w) = status_of o3"
  by (auto simp: set_light_notification_def Let_def split_beta write_int_simps)

lemma trace_backlight:
  "\<exists>out. trace (snd (set_light_backlight dev state w)) =
       trace w @ [Mutex_lock, Write_int LCD_FILE (rgb_to_brightness state) out, Mutex_unlock]
     \<and> fst (set_light_backlight dev state w) = status_of out"
  by (simp add: set_light_backlight_def Let_def split_beta write_int_simps
      pthread_mutex_lock_def pthread_mutex_unlock_def)

lemma trace_buttons:
  "\<exists>out. trace (snd (set_light_buttons dev state w)) =
       trace w @ [Mutex_lock, Write_int KEYBOARD_FILE (if is_lit state \<noteq> 0 then 255 else 0) out,
                  Mutex_unlock]
     \<and> fst (set_light_buttons dev state w) = status_of out"
  by (simp add: set_light_buttons_def Let_def split_beta write_int_simps
      pthread_mutex_lock_def pthread_mutex_unlock_def)

lemma trace_battery:
  "\<exists>out. trace (snd (set_light_battery dev state w)) =
       trace w @ [Write_int CHARGING_LED_FILE (if color state \<noteq> 0 then 255 else 0) out]
     \<and> fst (set_light_battery dev state w) = status_of out"
  by (simp add: set_light_battery_def Let_def split_beta write_int_simps)

lemma attention_eq: "set_light_attention dev state w = set_light_notification dev state w"
  by (simp add: set_light_attention_def set_light_notification_def)

lemmas file_defs =
  LCD_FILE_def KEYBOARD_FILE_def CHARGING_LED_FILE_def RED_LED_FILE_def RED_DELAY_ON_FILE_def
  RED_DELAY_OFF_FILE_def GREEN_LED_FILE_def GREEN_DELAY_ON_FILE_def GREEN_DELAY_OFF_FILE_def
  BLUE_LED_FILE_def BLUE_DELAY_ON_FILE_def BLUE_DELAY_OFF_FILE_def

lemma brightness_files_mem:
  "LCD_FILE \<in> set brightness_files" "KEYBOARD_FILE \<in> set brightness_files"
  "CHARGING_LED_FILE \<in> set brightness_files" "RED_LED_FILE \<in> set brightness_files"
  "GREEN_LED_FILE \<in> set brightness_files" "BLUE_LED_FILE \<in> set brightness_files"
  by (simp_all add: brightness_files_def)

lemma delay_files_not_mem:
  "RED_DELAY_ON_FILE \<notin> set brightness_files" "RED_DELAY_OFF_FILE \<notin> set brightness_files"
  "GREEN_DELAY_ON_FILE \<notin> set brightness_files" "GREEN_DELAY_OFF_FILE \<notin> set brightness_files"
  "BLUE_DELAY_ON_FILE \<notin> set brightness_files" "BLUE_DELAY_OFF_FILE \<notin> set brightness_files"
  by (simp_all add: brightness_files_def file_defs)

lemma fold_max_ge: "b \<le> fold max xs (b::nat)"
proof (induction xs arbitrary: b)
  case Nil
  show ?case by simp
next
  case (Cons x xs)
  have "b \<le> max x b" by simp
  also have "\<dots> \<le> fold max xs (max x b)" by (rule Cons.IH)
  finally show ?case by simp
qed

lemma fold_max_mem: "a \<in> set xs \<Longrightarrow> a \<le> fold max xs (b::nat)"
proof (induction xs arbitrary: b)
  case Nil
  then show ?case by simp
next
  case (Cons x xs)
  show ?case
  proof (cases "a = x")
    case True
    have "x \<le> max x b" by simp
    also have "\<dots> \<le> fold max xs (max x b)" by (rule fold_max_ge)
    finally show ?thesis using True by simp
  next
    case False
    with Cons.prems have "a \<in> set xs" by simp
    then show ?thesis using Cons.IH by simp
  qed
qed

lemma malloc_fresh: "\<not> live w (fst (malloc w))" "fst (malloc w) \<noteq> NULL"
proof -
  let ?p = "Suc (fold max (map fst (heap w)) 0)"
  have "?p \<notin> set (map fst (heap w))"
  proof
    assume "?p \<in> set (map fst (heap w))"
    then have "?p \<le> fold max (map fst (heap w)) 0" by (rule fold_max_mem)
    then show False by simp
  qed
  then show "\<not> live w (fst (malloc w))" by (simp add: live_def malloc_def Let_def)
  show "fst (malloc w) \<noteq> NULL" by (simp add: malloc_def Let_def NULL_def)
qed

lemma heap_once: "heap (pthread_once_init_globals w) = heap w"
  by (simp add: pthread_once_init_globals_def init_globals_def)

lemma live_once: "live (pthread_once_init_globals w) p = live w p"
  by (simp add: live_def heap_once)

lemma open_lights_known:
  assumes "(if LIGHT_ID_BACKLIGHT = name then Some Fn_set_light_backlight
            else if LIGHT_ID_KEYBOARD = name then Some Fn_set_light_keyboard
            else if LIGHT_ID_BUTTONS = name then Some Fn_set_light_buttons
            else if LIGHT_ID_BATTERY = name then Some Fn_set_light_battery
            else if LIGHT_ID_NOTIFICATIONS = name then Some Fn_set_light_notification
            else if LIGHT_ID_ATTENTION = name then Some Fn_set_light_attention
            else None) = Some fn"
  shows "\<exists>p w'. open_lights m name w = (0, Some p, w') \<and> p \<noteq> NULL \<and> \<not> live w p \<and> live w' p
           \<and> deref w' p =
               Some \<lparr>common = \<lparr>tag = HARDWARE_DEVICE_TAG, version = 0, module = m,
                                close = Some Fn_close_lights\<rparr>,
                     set_light = Some fn\<rparr>"
proof -
  let ?w1 = "pthread_once_init_globals w"
  have fresh: "\<not> live w (fst (malloc ?w1))" "fst (malloc ?w1) \<noteq> NULL"
    using malloc_fresh [of ?w1] by (simp_all add: live_once)
  show ?thesis
    using fresh
    by (simp add: open_lights_def assms Let_def split_beta)
       (simp add: malloc_def Let_def memset_zero_def assign_def deref_def live_def zero_device_def)
qed

lemma dispatch_table:
  "(if LIGHT_ID_BACKLIGHT = name then Some Fn_set_light_backlight
    else if LIGHT_ID_KEYBOARD = name then Some Fn_set_light_keyboard
    else if LIGHT_ID_BUTTONS = name then Some Fn_set_light_buttons
    else if LIGHT_ID_BATTERY = name then Some Fn_set_light_battery
    else if LIGHT_ID_NOTIFICATIONS = name then Some Fn_set_light_notification
    else if LIGHT_ID_ATTENTION = name then Some Fn_set_light_attention
    else None) = table_4_3 name"
  by (auto simp: table_4_3_def LIGHT_ID_BACKLIGHT_def LIGHT_ID_KEYBOARD_def LIGHT_ID_BUTTONS_def
      LIGHT_ID_BATTERY_def LIGHT_ID_NOTIFICATIONS_def LIGHT_ID_ATTENTION_def)

lemma since_self: "since w w = []"
  by (simp add: since_def)

lemma trace_attention:
  "\<exists>o1 o2 o3 o4 o5 o6 o7 o8 o9.
     trace (snd (set_light_attention dev state w)) =
       trace w @
         [Write_int RED_LED_FILE (drop_bit 16 (color state) AND 0xFF) o1,
          Write_int GREEN_LED_FILE (drop_bit 8 (color state) AND 0xFF) o2,
          Write_int BLUE_LED_FILE (color state AND 0xFF) o3,
          Write_int RED_DELAY_ON_FILE 
            (if (flashMode state = LIGHT_FLASH_HARDWARE \<or> flashMode state = LIGHT_FLASH_TIMED)
                \<and> word_sless 0 (flashOnMS state) \<and> word_sless 0 (flashOffMS state)
             then flashOnMS state else 0) o4,
          Write_int RED_DELAY_OFF_FILE
            (if (flashMode state = LIGHT_FLASH_HARDWARE \<or> flashMode state = LIGHT_FLASH_TIMED)
                \<and> word_sless 0 (flashOnMS state) \<and> word_sless 0 (flashOffMS state)
             then flashOffMS state else 0) o5,
          Write_int GREEN_DELAY_ON_FILE 
            (if (flashMode state = LIGHT_FLASH_HARDWARE \<or> flashMode state = LIGHT_FLASH_TIMED)
                \<and> word_sless 0 (flashOnMS state) \<and> word_sless 0 (flashOffMS state)
             then flashOnMS state else 0) o6,
          Write_int GREEN_DELAY_OFF_FILE
            (if (flashMode state = LIGHT_FLASH_HARDWARE \<or> flashMode state = LIGHT_FLASH_TIMED)
                \<and> word_sless 0 (flashOnMS state) \<and> word_sless 0 (flashOffMS state)
             then flashOffMS state else 0) o7,
          Write_int BLUE_DELAY_ON_FILE 
            (if (flashMode state = LIGHT_FLASH_HARDWARE \<or> flashMode state = LIGHT_FLASH_TIMED)
                \<and> word_sless 0 (flashOnMS state) \<and> word_sless 0 (flashOffMS state)
             then flashOnMS state else 0) o8,
          Write_int BLUE_DELAY_OFF_FILE
            (if (flashMode state = LIGHT_FLASH_HARDWARE \<or> flashMode state = LIGHT_FLASH_TIMED)
                \<and> word_sless 0 (flashOnMS state) \<and> word_sless 0 (flashOffMS state)
             then flashOffMS state else 0) o9]
     \<and> fst (set_light_attention dev state w) = status_of o3"
  by (auto simp: set_light_attention_def Let_def split_beta write_int_simps)

lemma writes_notification:
  "writes (since w (snd (set_light_notification dev state w))) =
     (let blink = (flashMode state = LIGHT_FLASH_HARDWARE \<or> flashMode state = LIGHT_FLASH_TIMED)
                  \<and> word_sless 0 (flashOnMS state) \<and> word_sless 0 (flashOffMS state);
          on_v = (if blink then flashOnMS state else 0);
          off_v = (if blink then flashOffMS state else 0)
      in [(RED_LED_FILE, drop_bit 16 (color state) AND 0xFF),
          (GREEN_LED_FILE, drop_bit 8 (color state) AND 0xFF),
          (BLUE_LED_FILE, color state AND 0xFF),
          (RED_DELAY_ON_FILE, on_v), (RED_DELAY_OFF_FILE, off_v),
          (GREEN_DELAY_ON_FILE, on_v), (GREEN_DELAY_OFF_FILE, off_v),
          (BLUE_DELAY_ON_FILE, on_v), (BLUE_DELAY_OFF_FILE, off_v)])"
proof -
  obtain evs where tr: "trace (snd (set_light_notification dev state w)) = trace w @ evs"
    and ws: "writes evs =
      (let blink = (flashMode state = LIGHT_FLASH_HARDWARE \<or> flashMode state = LIGHT_FLASH_TIMED)
                  \<and> word_sless 0 (flashOnMS state) \<and> word_sless 0 (flashOffMS state);
          on_v = (if blink then flashOnMS state else 0);
          off_v = (if blink then flashOffMS state else 0)
      in [(RED_LED_FILE, drop_bit 16 (color state) AND 0xFF),
          (GREEN_LED_FILE, drop_bit 8 (color state) AND 0xFF),
          (BLUE_LED_FILE, color state AND 0xFF),
          (RED_DELAY_ON_FILE, on_v), (RED_DELAY_OFF_FILE, off_v),
          (GREEN_DELAY_ON_FILE, on_v), (GREEN_DELAY_OFF_FILE, off_v),
          (BLUE_DELAY_ON_FILE, on_v), (BLUE_DELAY_OFF_FILE, off_v)])"
    using trace_notification [of dev state w] by (fastforce simp: Let_def)
  show ?thesis by (simp only: since_append [OF tr] ws)
qed

lemma open_battery_initially:
  "open_lights NULL ''battery'' (initial_world all_ok) =
     (0, Some 1,
      \<lparr>sysfs = all_ok, trace = [Mutex_init], already_warned = 0, g_init = True,
       heap = [(1, Some \<lparr>common = \<lparr>tag = HARDWARE_DEVICE_TAG, version = 0, module = NULL,
                                    close = Some Fn_close_lights\<rparr>,
                         set_light = Some Fn_set_light_battery\<rparr>)]\<rparr>)"
  by (simp add: open_lights_def LIGHT_ID_BACKLIGHT_def LIGHT_ID_KEYBOARD_def LIGHT_ID_BUTTONS_def
      LIGHT_ID_BATTERY_def initial_world_def pthread_once_init_globals_def init_globals_def
      malloc_def memset_zero_def assign_def zero_device_def Let_def)

lemma alpha_ignored_elsewhere:
  assumes "fn \<noteq> Fn_set_light_battery"
  shows "call_set_light fn dev (state\<lparr>color := color state XOR push_bit 24 top\<rparr>) w =
           call_set_light fn dev state w"
proof -
  let ?c = "color state XOR push_bit 24 top"
  have m: "?c AND 0x00ffffff = color state AND 0x00ffffff"
    unfolding ffffff_mask by (rule bit_word_eqI) (auto simp: bit_simps)
  have r: "(drop_bit 16 (color state) XOR drop_bit 16 (push_bit 24 top)) AND 0xFF =
      drop_bit 16 (color state) AND 0xFF"
    unfolding ff_mask by (rule bit_word_eqI) (auto simp: bit_simps)
  have g: "(drop_bit 8 (color state) XOR drop_bit 8 (push_bit 24 top)) AND 0xFF =
      drop_bit 8 (color state) AND 0xFF"
    unfolding ff_mask by (rule bit_word_eqI) (auto simp: bit_simps)
  have b: "?c AND 0xFF = color state AND 0xFF"
    unfolding ff_mask by (rule bit_word_eqI) (auto simp: bit_simps)
  show ?thesis
  proof (cases fn)
    case Fn_set_light_backlight
    then show ?thesis by (simp add: set_light_backlight_def rgb_to_brightness_def m)
  next
    case Fn_set_light_keyboard
    then show ?thesis by (simp add: set_light_keyboard_def)
  next
    case Fn_set_light_buttons
    then show ?thesis by (simp add: set_light_buttons_def is_lit_def m)
  next
    case Fn_set_light_battery
    with assms show ?thesis by simp
  next
    case Fn_set_light_notification
    then show ?thesis by (auto simp: set_light_notification_def Let_def split_beta r g b)
  next
    case Fn_set_light_attention
    then show ?thesis by (auto simp: set_light_attention_def Let_def split_beta r g b)
  qed
qed

lemma status_last_brightness:
  "fst (call_set_light fn dev state w) =
     (case last_status
             (filter (\<lambda>(path, r). path \<in> set brightness_files)
                (statuses (since w (snd (call_set_light fn dev state w))))) of
        None \<Rightarrow> 0
      | Some r \<Rightarrow> r)"
proof (cases fn)
  case Fn_set_light_backlight
  obtain out where
    tr: "trace (snd (set_light_backlight dev state w)) =
           trace w @ [Mutex_lock, Write_int LCD_FILE (rgb_to_brightness state) out, Mutex_unlock]"
    and st: "fst (set_light_backlight dev state w) = status_of out"
    using trace_backlight [of dev state w] by blast
  show ?thesis
    by (simp add: Fn_set_light_backlight since_append [OF tr] st brightness_files_mem
        last_status_def)
next
  case Fn_set_light_keyboard
  show ?thesis
    by (simp add: Fn_set_light_keyboard set_light_keyboard_def since_self last_status_def)
next
  case Fn_set_light_buttons
  obtain out where
    tr: "trace (snd (set_light_buttons dev state w)) =
           trace w @ [Mutex_lock,
                      Write_int KEYBOARD_FILE (if is_lit state \<noteq> 0 then 255 else 0) out,
                      Mutex_unlock]"
    and st: "fst (set_light_buttons dev state w) = status_of out"
    using trace_buttons [of dev state w] by blast
  show ?thesis
    by (simp add: Fn_set_light_buttons since_append [OF tr] st brightness_files_mem
        last_status_def)
next
  case Fn_set_light_battery
  obtain out where
    tr: "trace (snd (set_light_battery dev state w)) =
           trace w @ [Write_int CHARGING_LED_FILE (if color state \<noteq> 0 then 255 else 0) out]"
    and st: "fst (set_light_battery dev state w) = status_of out"
    using trace_battery [of dev state w] by blast
  show ?thesis
    by (simp add: Fn_set_light_battery since_append [OF tr] st brightness_files_mem
        last_status_def)
next
  case Fn_set_light_notification
  obtain o1 o2 o3 v4 o4 v5 o5 v6 o6 v7 o7 v8 o8 v9 o9 where
    tr: "trace (snd (set_light_notification dev state w)) =
       trace w @
         [Write_int RED_LED_FILE (drop_bit 16 (color state) AND 0xFF) o1,
          Write_int GREEN_LED_FILE (drop_bit 8 (color state) AND 0xFF) o2,
          Write_int BLUE_LED_FILE (color state AND 0xFF) o3,
          Write_int RED_DELAY_ON_FILE v4 o4, Write_int RED_DELAY_OFF_FILE v5 o5,
          Write_int GREEN_DELAY_ON_FILE v6 o6, Write_int GREEN_DELAY_OFF_FILE v7 o7,
          Write_int BLUE_DELAY_ON_FILE v8 o8, Write_int BLUE_DELAY_OFF_FILE v9 o9]"
    and st: "fst (set_light_notification dev state w) = status_of o3"
    using trace_notification [of dev state w] by blast
  show ?thesis
    by (simp add: Fn_set_light_notification since_append [OF tr] st brightness_files_mem
        delay_files_not_mem last_status_def)
next
  case Fn_set_light_attention
  obtain o1 o2 o3 v4 o4 v5 o5 v6 o6 v7 o7 v8 o8 v9 o9 where
    tr: "trace (snd (set_light_attention dev state w)) =
       trace w @
         [Write_int RED_LED_FILE (drop_bit 16 (color state) AND 0xFF) o1,
          Write_int GREEN_LED_FILE (drop_bit 8 (color state) AND 0xFF) o2,
          Write_int BLUE_LED_FILE (color state AND 0xFF) o3,
          Write_int RED_DELAY_ON_FILE v4 o4, Write_int RED_DELAY_OFF_FILE v5 o5,
          Write_int GREEN_DELAY_ON_FILE v6 o6, Write_int GREEN_DELAY_OFF_FILE v7 o7,
          Write_int BLUE_DELAY_ON_FILE v8 o8, Write_int BLUE_DELAY_OFF_FILE v9 o9]"
    and st: "fst (set_light_attention dev state w) = status_of o3"
    using trace_attention [of dev state w] by blast
  show ?thesis
    by (simp add: Fn_set_light_attention since_append [OF tr] st brightness_files_mem
        delay_files_not_mem last_status_def)
qed

lemma shape_backlight:
  "\<exists>out.
      since w (snd (set_light_backlight dev state w)) =
        [Mutex_lock, Write_int LCD_FILE (rgb_to_brightness state) out, Mutex_unlock]
      \<and> fst (set_light_backlight dev state w) = status_of out"
proof -
  obtain out where
    tr: "trace (snd (set_light_backlight dev state w)) =
       trace w @
        [Mutex_lock, Write_int LCD_FILE (rgb_to_brightness state) out, Mutex_unlock]"
    and st: "fst (set_light_backlight dev state w) = status_of out"
    using trace_backlight [of dev state w] by blast
  show ?thesis
    by (intro exI conjI) (rule since_append [OF tr], rule st)
qed

lemma shape_keyboard:
  "since w (snd (set_light_keyboard dev state w)) = []
   \<and> fst (set_light_keyboard dev state w) = 0"
  by (simp add: set_light_keyboard_def since_self)

lemma shape_buttons:
  "\<exists>out.
      since w (snd (set_light_buttons dev state w)) =
        [Mutex_lock,
         Write_int KEYBOARD_FILE (if is_lit state \<noteq> 0 then 255 else 0) out,
         Mutex_unlock]
      \<and> fst (set_light_buttons dev state w) = status_of out"
proof -
  obtain out where
    tr: "trace (snd (set_light_buttons dev state w)) =
       trace w @
        [Mutex_lock,
         Write_int KEYBOARD_FILE (if is_lit state \<noteq> 0 then 255 else 0) out,
         Mutex_unlock]"
    and st: "fst (set_light_buttons dev state w) = status_of out"
    using trace_buttons [of dev state w] by blast
  show ?thesis
    by (intro exI conjI) (rule since_append [OF tr], rule st)
qed

lemma shape_battery:
  "\<exists>out.
      since w (snd (set_light_battery dev state w)) =
        [Write_int CHARGING_LED_FILE (if color state \<noteq> 0 then 255 else 0) out]
      \<and> fst (set_light_battery dev state w) = status_of out"
proof -
  obtain out where
    tr: "trace (snd (set_light_battery dev state w)) =
       trace w @
        [Write_int CHARGING_LED_FILE (if color state \<noteq> 0 then 255 else 0) out]"
    and st: "fst (set_light_battery dev state w) = status_of out"
    using trace_battery [of dev state w] by blast
  show ?thesis
    by (intro exI conjI) (rule since_append [OF tr], rule st)
qed

lemma shape_notification:
  "\<exists>o1 o2 o3 o4 o5 o6 o7 o8 o9.
      since w (snd (set_light_notification dev state w)) =
        [Write_int RED_LED_FILE (drop_bit 16 (color state) AND 0xFF) o1,
         Write_int GREEN_LED_FILE (drop_bit 8 (color state) AND 0xFF) o2,
         Write_int BLUE_LED_FILE (color state AND 0xFF) o3,
         Write_int RED_DELAY_ON_FILE
           (if (flashMode state = LIGHT_FLASH_HARDWARE \<or> flashMode state = LIGHT_FLASH_TIMED)
                \<and> word_sless 0 (flashOnMS state) \<and> word_sless 0 (flashOffMS state)
             then flashOnMS state else 0) o4,
         Write_int RED_DELAY_OFF_FILE
           (if (flashMode state = LIGHT_FLASH_HARDWARE \<or> flashMode state = LIGHT_FLASH_TIMED)
                \<and> word_sless 0 (flashOnMS state) \<and> word_sless 0 (flashOffMS state)
             then flashOffMS state else 0) o5,
         Write_int GREEN_DELAY_ON_FILE
           (if (flashMode state = LIGHT_FLASH_HARDWARE \<or> flashMode state = LIGHT_FLASH_TIMED)
                \<and> word_sless 0 (flashOnMS state) \<and> word_sless 0 (flashOffMS state)
             then flashOnMS state else 0) o6,
         Write_int GREEN_DELAY_OFF_FILE
           (if (flashMode state = LIGHT_FLASH_HARDWARE \<or> flashMode state = LIGHT_FLASH_TIMED)
                \<and> word_sless 0 (flashOnMS state) \<and> word_sless 0 (flashOffMS state)
             then flashOffMS state else 0) o7,
         Write_int BLUE_DELAY_ON_FILE
           (if (flashMode state = LIGHT_FLASH_HARDWARE \<or> flashMode state = LIGHT_FLASH_TIMED)
                \<and> word_sless 0 (flashOnMS state) \<and> word_sless 0 (flashOffMS state)
             then flashOnMS state else 0) o8,
         Write_int BLUE_DELAY_OFF_FILE
           (if (flashMode state = LIGHT_FLASH_HARDWARE \<or> flashMode state = LIGHT_FLASH_TIMED)
                \<and> word_sless 0 (flashOnMS state) \<and> word_sless 0 (flashOffMS state)
             then flashOffMS state else 0) o9]
      \<and> fst (set_light_notification dev state w) = status_of o3"
proof -
  obtain o1 o2 o3 o4 o5 o6 o7 o8 o9 where
    tr: "trace (snd (set_light_notification dev state w)) =
       trace w @
        [Write_int RED_LED_FILE (drop_bit 16 (color state) AND 0xFF) o1,
         Write_int GREEN_LED_FILE (drop_bit 8 (color state) AND 0xFF) o2,
         Write_int BLUE_LED_FILE (color state AND 0xFF) o3,
         Write_int RED_DELAY_ON_FILE
           (if (flashMode state = LIGHT_FLASH_HARDWARE \<or> flashMode state = LIGHT_FLASH_TIMED)
                \<and> word_sless 0 (flashOnMS state) \<and> word_sless 0 (flashOffMS state)
             then flashOnMS state else 0) o4,
         Write_int RED_DELAY_OFF_FILE
           (if (flashMode state = LIGHT_FLASH_HARDWARE \<or> flashMode state = LIGHT_FLASH_TIMED)
                \<and> word_sless 0 (flashOnMS state) \<and> word_sless 0 (flashOffMS state)
             then flashOffMS state else 0) o5,
         Write_int GREEN_DELAY_ON_FILE
           (if (flashMode state = LIGHT_FLASH_HARDWARE \<or> flashMode state = LIGHT_FLASH_TIMED)
                \<and> word_sless 0 (flashOnMS state) \<and> word_sless 0 (flashOffMS state)
             then flashOnMS state else 0) o6,
         Write_int GREEN_DELAY_OFF_FILE
           (if (flashMode state = LIGHT_FLASH_HARDWARE \<or> flashMode state = LIGHT_FLASH_TIMED)
                \<and> word_sless 0 (flashOnMS state) \<and> word_sless 0 (flashOffMS state)
             then flashOffMS state else 0) o7,
         Write_int BLUE_DELAY_ON_FILE
           (if (flashMode state = LIGHT_FLASH_HARDWARE \<or> flashMode state = LIGHT_FLASH_TIMED)
                \<and> word_sless 0 (flashOnMS state) \<and> word_sless 0 (flashOffMS state)
             then flashOnMS state else 0) o8,
         Write_int BLUE_DELAY_OFF_FILE
           (if (flashMode state = LIGHT_FLASH_HARDWARE \<or> flashMode state = LIGHT_FLASH_TIMED)
                \<and> word_sless 0 (flashOnMS state) \<and> word_sless 0 (flashOffMS state)
             then flashOffMS state else 0) o9]"
    and st: "fst (set_light_notification dev state w) = status_of o3"
    using trace_notification [of dev state w] by blast
  show ?thesis
    by (intro exI conjI) (rule since_append [OF tr], rule st)
qed

lemma shape_attention:
  "\<exists>o1 o2 o3 o4 o5 o6 o7 o8 o9.
      since w (snd (set_light_attention dev state w)) =
        [Write_int RED_LED_FILE (drop_bit 16 (color state) AND 0xFF) o1,
         Write_int GREEN_LED_FILE (drop_bit 8 (color state) AND 0xFF) o2,
         Write_int BLUE_LED_FILE (color state AND 0xFF) o3,
         Write_int RED_DELAY_ON_FILE
           (if (flashMode state = LIGHT_FLASH_HARDWARE \<or> flashMode state = LIGHT_FLASH_TIMED)
                \<and> word_sless 0 (flashOnMS state) \<and> word_sless 0 (flashOffMS state)
             then flashOnMS state else 0) o4,
         Write_int RED_DELAY_OFF_FILE
           (if (flashMode state = LIGHT_FLASH_HARDWARE \<or> flashMode state = LIGHT_FLASH_TIMED)
                \<and> word_sless 0 (flashOnMS state) \<and> word_sless 0 (flashOffMS state)
             then flashOffMS state else 0) o5,
         Write_int GREEN_DELAY_ON_FILE
           (if (flashMode state = LIGHT_FLASH_HARDWARE \<or> flashMode state = LIGHT_FLASH_TIMED)
                \<and> word_sless 0 (flashOnMS state) \<and> word_sless 0 (flashOffMS state)
             then flashOnMS state else 0) o6,
         Write_int GREEN_DELAY_OFF_FILE
           (if (flashMode state = LIGHT_FLASH_HARDWARE \<or> flashMode state = LIGHT_FLASH_TIMED)
                \<and> word_sless 0 (flashOnMS state) \<and> word_sless 0 (flashOffMS state)
             then flashOffMS state else 0) o7,
         Write_int BLUE_DELAY_ON_FILE
           (if (flashMode state = LIGHT_FLASH_HARDWARE \<or> flashMode state = LIGHT_FLASH_TIMED)
                \<and> word_sless 0 (flashOnMS state) \<and> word_sless 0 (flashOffMS state)
             then flashOnMS state else 0) o8,
         Write_int BLUE_DELAY_OFF_FILE
           (if (flashMode state = LIGHT_FLASH_HARDWARE \<or> flashMode state = LIGHT_FLASH_TIMED)
                \<and> word_sless 0 (flashOnMS state) \<and> word_sless 0 (flashOffMS state)
             then flashOffMS state else 0) o9]
      \<and> fst (set_light_attention dev state w) = status_of o3"
proof -
  obtain o1 o2 o3 o4 o5 o6 o7 o8 o9 where
    tr: "trace (snd (set_light_attention dev state w)) =
       trace w @
        [Write_int RED_LED_FILE (drop_bit 16 (color state) AND 0xFF) o1,
         Write_int GREEN_LED_FILE (drop_bit 8 (color state) AND 0xFF) o2,
         Write_int BLUE_LED_FILE (color state AND 0xFF) o3,
         Write_int RED_DELAY_ON_FILE
           (if (flashMode state = LIGHT_FLASH_HARDWARE \<or> flashMode state = LIGHT_FLASH_TIMED)
                \<and> word_sless 0 (flashOnMS state) \<and> word_sless 0 (flashOffMS state)
             then flashOnMS state else 0) o4,
         Write_int RED_DELAY_OFF_FILE
           (if (flashMode state = LIGHT_FLASH_HARDWARE \<or> flashMode state = LIGHT_FLASH_TIMED)
                \<and> word_sless 0 (flashOnMS state) \<and> word_sless 0 (flashOffMS state)
             then flashOffMS state else 0) o5,
         Write_int GREEN_DELAY_ON_FILE
           (if (flashMode state = LIGHT_FLASH_HARDWARE \<or> flashMode state = LIGHT_FLASH_TIMED)
                \<and> word_sless 0 (flashOnMS state) \<and> word_sless 0 (flashOffMS state)
             then flashOnMS state else 0) o6,
         Write_int GREEN_DELAY_OFF_FILE
           (if (flashMode state = LIGHT_FLASH_HARDWARE \<or> flashMode state = LIGHT_FLASH_TIMED)
                \<and> word_sless 0 (flashOnMS state) \<and> word_sless 0 (flashOffMS state)
             then flashOffMS state else 0) o7,
         Write_int BLUE_DELAY_ON_FILE
           (if (flashMode state = LIGHT_FLASH_HARDWARE \<or> flashMode state = LIGHT_FLASH_TIMED)
                \<and> word_sless 0 (flashOnMS state) \<and> word_sless 0 (flashOffMS state)
             then flashOnMS state else 0) o8,
         Write_int BLUE_DELAY_OFF_FILE
           (if (flashMode state = LIGHT_FLASH_HARDWARE \<or> flashMode state = LIGHT_FLASH_TIMED)
                \<and> word_sless 0 (flashOnMS state) \<and> word_sless 0 (flashOffMS state)
             then flashOffMS state else 0) o9]"
    and st: "fst (set_light_attention dev state w) = status_of o3"
    using trace_attention [of dev state w] by blast
  show ?thesis
    by (intro exI conjI) (rule since_append [OF tr], rule st)
qed

section \<open>The claims of the specification\<close>

subsection \<open>C1: the alpha byte\<close>

text \<open>
  C1 says that for every operation the colour is 24 significant bits: the alpha byte
  (bits 24 and up) has no effect on any lit test, brightness computation or value written
  to a control file. Five operations keep to this (lemma \<open>alpha_ignored_elsewhere\<close>).
  \<open>set_light_battery\<close> does not: it tests the whole word \<open>colorRGB\<close>, where
  \<open>set_light_buttons\<close> asks \<open>is_lit\<close>. The colours 0xFF000000 and 0x00000000 differ
  in the alpha byte only and \<open>is_lit\<close> gives the same answer for both, yet the battery
  operation writes 255 to the charging LED for the first and 0 for the second.
\<close>

theorem alpha_reaches_battery_led:
  "writes (since (initial_world all_ok)
      (snd (set_light_battery NULL (steady 0xFF000000) (initial_world all_ok)))) =
     [(CHARGING_LED_FILE, 255)]
   \<and> writes (since (initial_world all_ok)
      (snd (set_light_battery NULL (steady 0x00000000) (initial_world all_ok)))) =
     [(CHARGING_LED_FILE, 0)]
   \<and> is_lit (steady 0xFF000000) = is_lit (steady 0x00000000)"
  by (simp add: set_light_battery_def write_int_def initial_world_def all_ok_def steady_def
      since_def is_lit_def Let_def)

subsection \<open>C2: the status an operation returns\<close>

text \<open>
  C2 says that the status of every operation is the error code of the last file write it
  attempted. For the notification operation this fails: its last write is the one to the
  blue \<open>delay_off\<close> file, whose result the source drops. With \<open>open\<close> failing on
  that file only (error number 13), the last write has the error code -13 and the
  operation returns 0.
\<close>

theorem last_write_not_reported:
  "last_status (statuses (since (initial_world (open_fails_on BLUE_DELAY_OFF_FILE 13))
      (snd (set_light_notification NULL example_state
              (initial_world (open_fails_on BLUE_DELAY_OFF_FILE 13)))))) = Some (- 13)
   \<and> fst (set_light_notification NULL example_state
              (initial_world (open_fails_on BLUE_DELAY_OFF_FILE 13))) = 0
   \<and> last_status (statuses (since (initial_world (open_fails_on BLUE_DELAY_OFF_FILE 13))
      (snd (set_light_notification NULL example_state
              (initial_world (open_fails_on BLUE_DELAY_OFF_FILE 13)))))) \<noteq>
     Some (fst (set_light_notification NULL example_state
              (initial_world (open_fails_on BLUE_DELAY_OFF_FILE 13))))"
  by (simp add: set_light_notification_def write_int_def initial_world_def open_fails_on_def
      example_state_def since_def Let_def last_status_def status_of_def file_defs
      LIGHT_FLASH_TIMED_def LIGHT_FLASH_HARDWARE_def word_sless_alt)

text \<open>
  C2 as amended: for every operation, every light state and every behaviour of the file
  system, the status returned is the error code of the last write to a brightness file
  that the operation attempted; earlier writes and the writes to duration files do not
  influence it. The theorem also says what each operation adds to the trace, so that
  "the last brightness write" is pinned down: backlight, buttons and battery make one
  write (to the backlight, the keyboard and the charging LED file) and return its status;
  the keyboard operation adds nothing and returns 0; notification and attention make nine
  writes, red, green and blue brightness and then the six duration files, and return the
  status of the third, the blue brightness write.
\<close>

theorem status_is_last_brightness_write:
  "fst (call_set_light fn dev state w) =
     (case last_status
             (filter (\<lambda>(path, r). path \<in> set brightness_files)
                (statuses (since w (snd (call_set_light fn dev state w))))) of
        None \<Rightarrow> 0
      | Some r \<Rightarrow> r)
   \<and> (\<exists>out.
      since w (snd (set_light_backlight dev state w)) =
        [Mutex_lock, Write_int LCD_FILE (rgb_to_brightness state) out, Mutex_unlock]
      \<and> fst (set_light_backlight dev state w) = status_of out)
   \<and> (since w (snd (set_light_keyboard dev state w)) = []
      \<and> fst (set_light_keyboard dev state w) = 0)
   \<and> (\<exists>out.
      since w (snd (set_light_buttons dev state w)) =
        [Mutex_lock,
         Write_int KEYBOARD_FILE (if is_lit state \<noteq> 0 then 255 else 0) out,
         Mutex_unlock]
      \<and> fst (set_light_buttons dev state w) = status_of out)
   \<and> (\<exists>out.
      since w (snd (set_light_battery dev state w)) =
        [Write_int CHARGING_LED_FILE (if color state \<noteq> 0 then 255 else 0) out]
      \<and> fst (set_light_battery dev state w) = status_of out)
   \<and> (\<exists>o1 o2 o3 o4 o5 o6 o7 o8 o9.
      since w (snd (set_light_notification dev state w)) =
        [Write_int RED_LED_FILE (drop_bit 16 (color state) AND 0xFF) o1,
         Write_int GREEN_LED_FILE (drop_bit 8 (color state) AND 0xFF) o2,
         Write_int BLUE_LED_FILE (color state AND 0xFF) o3,
         Write_int RED_DELAY_ON_FILE
           (if (flashMode state = LIGHT_FLASH_HARDWARE \<or> flashMode state = LIGHT_FLASH_TIMED)
                \<and> word_sless 0 (flashOnMS state) \<and> word_sless 0 (flashOffMS state)
             then flashOnMS state else 0) o4,
         Write_int RED_DELAY_OFF_FILE
           (if (flashMode state = LIGHT_FLASH_HARDWARE \<or> flashMode state = LIGHT_FLASH_TIMED)
                \<and> word_sless 0 (flashOnMS state) \<and> word_sless 0 (flashOffMS state)
             then flashOffMS state else 0) o5,
         Write_int GREEN_DELAY_ON_FILE
           (if (flashMode state = LIGHT_FLASH_HARDWARE \<or> flashMode state = LIGHT_FLASH_TIMED)
                \<and> word_sless 0 (flashOnMS state) \<and> word_sless 0 (flashOffMS state)
             then flashOnMS state else 0) o6,
         Write_int GREEN_DELAY_OFF_FILE
           (if (flashMode state = LIGHT_FLASH_HARDWARE \<or> flashMode state = LIGHT_FLASH_TIMED)
                \<and> word_sless 0 (flashOnMS state) \<and> word_sless 0 (flashOffMS state)
             then flashOffMS state else 0) o7,
         Write_int BLUE_DELAY_ON_FILE
           (if (flashMode state = LIGHT_FLASH_HARDWARE \<or> flashMode state = LIGHT_FLASH_TIMED)
                \<and> word_sless 0 (flashOnMS state) \<and> word_sless 0 (flashOffMS state)
             then flashOnMS state else 0) o8,
         Write_int BLUE_DELAY_OFF_FILE
           (if (flashMode state = LIGHT_FLASH_HARDWARE \<or> flashMode state = LIGHT_FLASH_TIMED)
                \<and> word_sless 0 (flashOnMS state) \<and> word_sless 0 (flashOffMS state)
             then flashOffMS state else 0) o9]
      \<and> fst (set_light_notification dev state w) = status_of o3)
   \<and> (\<exists>o1 o2 o3 o4 o5 o6 o7 o8 o9.
      since w (snd (set_light_attention dev state w)) =
        [Write_int RED_LED_FILE (drop_bit 16 (color state) AND 0xFF) o1,
         Write_int GREEN_LED_FILE (drop_bit 8 (color state) AND 0xFF) o2,
         Write_int BLUE_LED_FILE (color state AND 0xFF) o3,
         Write_int RED_DELAY_ON_FILE
           (if (flashMode state = LIGHT_FLASH_HARDWARE \<or> flashMode state = LIGHT_FLASH_TIMED)
                \<and> word_sless 0 (flashOnMS state) \<and> word_sless 0 (flashOffMS state)
             then flashOnMS state else 0) o4,
         Write_int RED_DELAY_OFF_FILE
           (if (flashMode state = LIGHT_FLASH_HARDWARE \<or> flashMode state = LIGHT_FLASH_TIMED)
                \<and> word_sless 0 (flashOnMS state) \<and> word_sless 0 (flashOffMS state)
             then flashOffMS state else 0) o5,
         Write_int GREEN_DELAY_ON_FILE
           (if (flashMode state = LIGHT_FLASH_HARDWARE \<or> flashMode state = LIGHT_FLASH_TIMED)
                \<and> word_sless 0 (flashOnMS state) \<and> word_sless 0 (flashOffMS state)
             then flashOnMS state else 0) o6,
         Write_int GREEN_DELAY_OFF_FILE
           (if (flashMode state = LIGHT_FLASH_HARDWARE \<or> flashMode state = LIGHT_FLASH_TIMED)
                \<and> word_sless 0 (flashOnMS state) \<and> word_sless 0 (flashOffMS state)
             then flashOffMS state else 0) o7,
         Write_int BLUE_DELAY_ON_FILE
           (if (flashMode state = LIGHT_FLASH_HARDWARE \<or> flashMode state = LIGHT_FLASH_TIMED)
                \<and> word_sless 0 (flashOnMS state) \<and> word_sless 0 (flashOffMS state)
             then flashOnMS state else 0) o8,
         Write_int BLUE_DELAY_OFF_FILE
           (if (flashMode state = LIGHT_FLASH_HARDWARE \<or> flashMode state = LIGHT_FLASH_TIMED)
                \<and> word_sless 0 (flashOnMS state) \<and> word_sless 0 (flashOffMS state)
             then flashOffMS state else 0) o9]
      \<and> fst (set_light_attention dev state w) = status_of o3)"
proof (intro conjI)
  show "fst (call_set_light fn dev state w) =
     (case last_status
             (filter (\<lambda>(path, r). path \<in> set brightness_files)
                (statuses (since w (snd (call_set_light fn dev state w))))) of
        None \<Rightarrow> 0
      | Some r \<Rightarrow> r)"
    by (rule status_last_brightness)
qed (rule shape_backlight shape_keyboard [THEN conjunct1] shape_keyboard [THEN conjunct2]
      shape_buttons shape_battery shape_notification shape_attention)+

subsection \<open>C3: the brightness formula\<close>

text \<open>
  C3: for every colour C, \<open>rgb_to_brightness\<close> is (77 R + 150 G + 29 B) >> 8, where
  R, G and B are bits 16-23, 8-15 and 0-7 of C. The result is a function of the colour
  alone; the model of \<open>rgb_to_brightness\<close> has no world to read or change. The formula
  is stated twice: as \<open>luma\<close>, and with division and remainder on the unsigned value
  of the colour.
\<close>

theorem rgb_to_brightness_formula:
  "sint (rgb_to_brightness state) = luma (color state)
   \<and> sint (rgb_to_brightness state) =
       (77 * (uint (color state) div 65536 mod 256)
        + 150 * (uint (color state) div 256 mod 256)
        + 29 * (uint (color state) mod 256)) div 256"
  using rgb_to_brightness_luma [of state] luma_divmod [of "color state"] by simp

subsection \<open>C4: the notification example\<close>

text \<open>
  C4: with colour 0x00112233, flash mode TIMED, 100 ms on and 200 ms off, the notification
  and the attention operation write 0x11, 0x22 and 0x33 to the red, green and blue
  brightness files and 100 and 200 to each of the three \<open>delay_on\<close>/\<open>delay_off\<close>
  pairs; with flash mode NONE they write 0 to all six duration files, whatever durations
  were asked for. This holds from every world, whatever the file system answers.
\<close>

theorem notification_example:
  "writes (since w (snd (set_light_notification dev
       \<lparr>color = 0x00112233, flashMode = LIGHT_FLASH_TIMED, flashOnMS = 100, flashOffMS = 200,
        brightnessMode = bm\<rparr> w))) =
     [(RED_LED_FILE, 0x11), (GREEN_LED_FILE, 0x22), (BLUE_LED_FILE, 0x33),
      (RED_DELAY_ON_FILE, 100), (RED_DELAY_OFF_FILE, 200),
      (GREEN_DELAY_ON_FILE, 100), (GREEN_DELAY_OFF_FILE, 200),
      (BLUE_DELAY_ON_FILE, 100), (BLUE_DELAY_OFF_FILE, 200)]
   \<and> writes (since w (snd (set_light_attention dev
       \<lparr>color = 0x00112233, flashMode = LIGHT_FLASH_TIMED, flashOnMS = 100, flashOffMS = 200,
        brightnessMode = bm\<rparr> w))) =
     [(RED_LED_FILE, 0x11), (GREEN_LED_FILE, 0x22), (BLUE_LED_FILE, 0x33),
      (RED_DELAY_ON_FILE, 100), (RED_DELAY_OFF_FILE, 200),
      (GREEN_DELAY_ON_FILE, 100), (GREEN_DELAY_OFF_FILE, 200),
      (BLUE_DELAY_ON_FILE, 100), (BLUE_DELAY_OFF_FILE, 200)]
   \<and> writes (since w (snd (set_light_notification dev
       \<lparr>color = 0x00112233, flashMode = LIGHT_FLASH_NONE, flashOnMS = on_ms, flashOffMS = off_ms,
        brightnessMode = bm\<rparr> w))) =
     [(RED_LED_FILE, 0x11), (GREEN_LED_FILE, 0x22), (BLUE_LED_FILE, 0x33),
      (RED_DELAY_ON_FILE, 0), (RED_DELAY_OFF_FILE, 0),
      (GREEN_DELAY_ON_FILE, 0), (GREEN_DELAY_OFF_FILE, 0),
      (BLUE_DELAY_ON_FILE, 0), (BLUE_DELAY_OFF_FILE, 0)]
   \<and> writes (since w (snd (set_light_attention dev
       \<lparr>color = 0x00112233, flashMode = LIGHT_FLASH_NONE, flashOnMS = on_ms, flashOffMS = off_ms,
        brightnessMode = bm\<rparr> w))) =
     [(RED_LED_FILE, 0x11), (GREEN_LED_FILE, 0x22), (BLUE_LED_FILE, 0x33),
      (RED_DELAY_ON_FILE, 0), (RED_DELAY_OFF_FILE, 0),
      (GREEN_DELAY_ON_FILE, 0), (GREEN_DELAY_OFF_FILE, 0),
      (BLUE_DELAY_ON_FILE, 0), (BLUE_DELAY_OFF_FILE, 0)]"
  by (simp add: attention_eq writes_notification Let_def word_sless_alt LIGHT_FLASH_TIMED_def LIGHT_FLASH_NONE_def
      LIGHT_FLASH_HARDWARE_def)

subsection \<open>C5: attention is notification\<close>

text \<open>
  C5: for every light state the attention operation does what the notification operation
  does: the same status and the same world afterwards, hence the same writes to the same
  files with the same values in the same order.
\<close>

theorem attention_is_notification:
  "set_light_attention dev state w = set_light_notification dev state w
   \<and> fst (set_light_attention dev state w) = fst (set_light_notification dev state w)
   \<and> since w (snd (set_light_attention dev state w)) =
       since w (snd (set_light_notification dev state w))"
  by (simp add: set_light_attention_def set_light_notification_def)

subsection \<open>C6: opening a light\<close>

text \<open>
  C6: \<open>open_lights\<close> with one of the six identifiers succeeds with status 0 and stores
  a new handle whose \<open>set_light\<close> is the operation of the table of section 4.3; with any
  other string it returns \<open>-EINVAL\<close>, stores no handle and leaves the world as it was.
\<close>

theorem open_lights_table:
  "(case table_4_3 name of
      Some fn \<Rightarrow>
        (\<exists>p w'. open_lights m name w = (0, Some p, w') \<and> p \<noteq> NULL \<and> \<not> live w p \<and> live w' p
           \<and> map_option set_light (deref w' p) = Some (Some fn))
    | None \<Rightarrow> open_lights m name w = (- EINVAL, None, w))"
proof (cases "table_4_3 name")
  case None
  then show ?thesis
    by (simp add: open_lights_def dispatch_table)
next
  case (Some fn)
  then obtain p w' where "open_lights m name w = (0, Some p, w')" "p \<noteq> NULL" "\<not> live w p"
    "live w' p"
    "deref w' p =
       Some \<lparr>common = \<lparr>tag = HARDWARE_DEVICE_TAG, version = 0, module = m,
                        close = Some Fn_close_lights\<rparr>,
             set_light = Some fn\<rparr>"
    using open_lights_known [of name fn m w] by (auto simp: dispatch_table)
  then show ?thesis using Some by simp
qed

theorem open_lights_table_witness:
  "fst (open_lights NULL ''battery'' (initial_world all_ok)) = 0
   \<and> fst (snd (open_lights NULL ''battery'' (initial_world all_ok))) = Some 1
   \<and> map_option set_light
         (deref (snd (snd (open_lights NULL ''battery'' (initial_world all_ok)))) 1) =
       Some (Some Fn_set_light_battery)
   \<and> open_lights NULL ''wifi'' (initial_world all_ok) = (- EINVAL, None, initial_world all_ok)"
proof -
  have known: "table_4_3 ''battery'' = Some Fn_set_light_battery"
    by (simp add: table_4_3_def)
  have unknown: "table_4_3 ''wifi'' = None"
    by (simp add: table_4_3_def)
  obtain p w' where res: "open_lights NULL ''battery'' (initial_world all_ok) = (0, Some p, w')"
    and bound: "map_option set_light (deref w' p) = Some (Some Fn_set_light_battery)"
    using open_lights_table [where name = "''battery''" and m = NULL and w = "initial_world all_ok"] known by auto
  have p: "p = 1" using res by (simp add: open_battery_initially)
  have refused:
    "open_lights NULL ''wifi'' (initial_world all_ok) = (- EINVAL, None, initial_world all_ok)"
    using open_lights_table [where name = "''wifi''" and m = NULL and w = "initial_world all_ok"] unknown by simp
  show ?thesis using res bound p refused by simp
qed

subsection \<open>C7: the battery operation\<close>

text \<open>
  C7: for every light state the battery operation adds one event to the trace, a write to
  the charging LED brightness file of 255 if the colour is not zero and of 0 otherwise;
  it returns the status of that write; and neither its status nor the world it leaves
  depends on the flash mode or the two flash durations. (The colour is the whole 32-bit
  field, as C1 notes.)
\<close>

theorem battery_single_write:
  "(\<exists>out. since w (snd (set_light_battery dev state w)) =
            [Write_int CHARGING_LED_FILE (if color state \<noteq> 0 then 255 else 0) out]
          \<and> fst (set_light_battery dev state w) = status_of out)
   \<and> set_light_battery dev (state\<lparr>flashMode := m, flashOnMS := on_ms, flashOffMS := off_ms\<rparr>) w =
       set_light_battery dev state w"
proof
  obtain out where
    tr: "trace (snd (set_light_battery dev state w)) =
           trace w @ [Write_int CHARGING_LED_FILE (if color state \<noteq> 0 then 255 else 0) out]"
    and st: "fst (set_light_battery dev state w) = status_of out"
    using trace_battery [of dev state w] by blast
  show "\<exists>out. since w (snd (set_light_battery dev state w)) =
            [Write_int CHARGING_LED_FILE (if color state \<noteq> 0 then 255 else 0) out]
          \<and> fst (set_light_battery dev state w) = status_of out"
    using since_append [OF tr] st by blast
  show "set_light_battery dev (state\<lparr>flashMode := m, flashOnMS := on_ms, flashOffMS := off_ms\<rparr>) w =
       set_light_battery dev state w"
    by (simp add: set_light_battery_def Let_def split_beta)
qed

subsection \<open>C8: the lit test\<close>

text \<open>
  C8: \<open>is_lit\<close> is true (not zero) exactly when C AND 0x00FFFFFF is not zero, that is
  when the low 24 bits of the colour are not all zero; changing bits 24 and up in any
  way does not change its result.
\<close>

theorem is_lit_low_24_bits:
  "(is_lit state \<noteq> 0) = (color state AND 0x00FFFFFF \<noteq> 0)
   \<and> (is_lit state \<noteq> 0) = (take_bit 24 (uint (color state)) \<noteq> 0)
   \<and> is_lit (state\<lparr>color := color state XOR push_bit 24 top\<rparr>) = is_lit state"
proof -
  have a: "(color state XOR push_bit 24 top) AND mask 24 = color state AND mask 24"
    by (rule bit_word_eqI) (auto simp: bit_simps)
  have b: "(color state AND mask 24 = 0) = (take_bit 24 (uint (color state)) = 0)"
    by (simp add: word_eq_iff_unsigned [where ?'a = int] unsigned_take_bit_eq flip: take_bit_eq_mask)
  show ?thesis
    using a b by (simp add: is_lit_def ffffff_mask)
qed

subsection \<open>C9: closing a handle\<close>

text \<open>
  C9: \<open>close_lights\<close> returns 0 on every handle: on \<open>NULL\<close> it changes nothing, on a
  live handle it releases the device and changes nothing else.
\<close>

theorem close_lights_ok:
  assumes "dev = NULL \<or> live w dev"
  shows "\<exists>w'. close_lights dev w = Inr (0, w')
           \<and> (if dev = NULL then w' = w
               else \<not> live w' dev \<and> w' = w\<lparr>heap := AList.delete dev (heap w)\<rparr>)"
  using assms
  by (auto simp: close_lights_def free_def live_def AList.delete_notin_dom)

theorem close_lights_ok_witness:
  "(NULL = NULL \<or> live (initial_world all_ok) NULL)
   \<and> close_lights NULL (initial_world all_ok) = Inr (0, initial_world all_ok)
   \<and> (1 = NULL \<or> live (snd (snd (open_lights NULL ''battery'' (initial_world all_ok)))) 1)
   \<and> close_lights 1 (snd (snd (open_lights NULL ''battery'' (initial_world all_ok)))) =
       Inr (0, \<lparr>sysfs = all_ok, trace = [Mutex_init], already_warned = 0, g_init = True,
                heap = []\<rparr>)"
proof -
  define w0 where "w0 = initial_world all_ok"
  define w1 where "w1 = snd (snd (open_lights NULL ''battery'' (initial_world all_ok)))"
  have w1: "w1 =
      \<lparr>sysfs = all_ok, trace = [Mutex_init], already_warned = 0, g_init = True,
       heap = [(1, Some \<lparr>common = \<lparr>tag = HARDWARE_DEVICE_TAG, version = 0, module = NULL,
                                    close = Some Fn_close_lights\<rparr>,
                         set_light = Some Fn_set_light_battery\<rparr>)]\<rparr>"
    by (simp add: w1_def open_battery_initially)
  have n: "(1::nat) \<noteq> NULL" by (simp add: NULL_def)
  have h0: "NULL = NULL \<or> live w0 NULL" by simp
  have h1: "1 = NULL \<or> live w1 1" by (simp add: w1 live_def)
  obtain w' where "close_lights NULL w0 = Inr (0, w')" "w' = w0"
    using close_lights_ok [OF h0] by auto
  then have c0: "close_lights NULL w0 = Inr (0, w0)" by simp
  obtain w'' where "close_lights 1 w1 = Inr (0, w'')" "w'' = w1\<lparr>heap := AList.delete 1 (heap w1)\<rparr>"
    using close_lights_ok [OF h1] n by auto
  then have c1: "close_lights 1 w1 =
      Inr (0, \<lparr>sysfs = all_ok, trace = [Mutex_init], already_warned = 0, g_init = True,
               heap = []\<rparr>)"
    by (simp add: w1 AList.delete_eq)
  show ?thesis
    using h0 h1 c0 c1 by (simp only: w0_def w1_def) 
qed

subsection \<open>C10: the range of the brightness\<close>

text \<open>
  C10: for every 32-bit colour the value of \<open>rgb_to_brightness\<close> lies between 0 and 255,
  and it is the one value the backlight operation writes, to the backlight file.
\<close>

theorem backlight_brightness_in_range:
  "0 \<le> sint (rgb_to_brightness state) \<and> sint (rgb_to_brightness state) \<le> 255
   \<and> writes (since w (snd (set_light_backlight dev state w))) =
       [(LCD_FILE, rgb_to_brightness state)]"
proof -
  obtain out where
    tr: "trace (snd (set_light_backlight dev state w)) =
           trace w @ [Mutex_lock, Write_int LCD_FILE (rgb_to_brightness state) out, Mutex_unlock]"
    using trace_backlight [of dev state w] by blast
  show ?thesis
    using luma_range [of "color state"]
    by (simp add: rgb_to_brightness_luma since_append [OF tr])
qed

end
